theory Spec2Isabelle
  imports Main "HOL-Library.Sublist"
begin

section \<open>The chat client of \<open>frontend/src/components/ChatInterface.tsx\<close>\<close>

text \<open>
  The component keeps its conversation in React state and talks to the backend in
  \<open>handleSubmit\<close>. The embedding below follows that file: the state hooks become one
  record, every setter call becomes a record update, the awaited results of \<open>fetch\<close>,
  \<open>response.json()\<close> and \<open>reader.read()\<close> are inputs of the model, and every exception
  that JavaScript raises on the way is a value. One call of \<open>handleSubmit\<close> is followed
  from its first statement to its last; what other handlers do while it waits is not
  part of the model.
\<close>

subsection \<open>JavaScript strings\<close>

text \<open>
  A JavaScript string is a sequence of UTF-16 code units. The model uses \<^typ>\<open>string\<close>
  and reads each \<^typ>\<open>char\<close> as the code unit with the same number, so it covers the
  strings whose code units are below 256. On these, \<open>String.prototype.toLowerCase\<close>
  adds 32 to the units of A-Z, of U+00C0-U+00D6 and of U+00D8-U+00DE and leaves the
  others alone, and \<open>String.prototype.trim\<close> strips the units 9-13, 32 and 160.
\<close>

definition is_upper_unit :: "nat \<Rightarrow> bool" where
  "is_upper_unit n = ((65 \<le> n \<and> n \<le> 90) \<or> (192 \<le> n \<and> n \<le> 222 \<and> n \<noteq> 215))"

definition toLowerChar :: "char \<Rightarrow> char" where
  "toLowerChar c = (if is_upper_unit (of_char c) then char_of (of_char c + (32::nat)) else c)"

definition toLowerCase :: "string \<Rightarrow> string" where
  "toLowerCase s = map toLowerChar s"

definition is_white_space :: "char \<Rightarrow> bool" where
  "is_white_space c = (let n = (of_char c :: nat) in (9 \<le> n \<and> n \<le> 13) \<or> n = 32 \<or> n = 160)"

definition trim :: "string \<Rightarrow> string" where
  "trim s = rev (dropWhile is_white_space (rev (dropWhile is_white_space s)))"

text \<open>\<open>s.includes(sub)\<close>: \<open>sub\<close> occurs in \<open>s\<close> at some position.\<close>

fun str_includes :: "string \<Rightarrow> string \<Rightarrow> bool" where
  "str_includes [] sub = (sub = [])"
| "str_includes (c # cs) sub = (prefix sub (c # cs) \<or> str_includes cs sub)"

text \<open>\<open>Number.prototype.toString\<close> on a non-negative integer: its decimal digits.\<close>

definition digit_char :: "nat \<Rightarrow> char" where
  "digit_char d = char_of (48 + d)"

fun toString :: "nat \<Rightarrow> string" where
  "toString n = (if n < 10 then [digit_char n] else toString (n div 10) @ [digit_char (n mod 10)])"

declare toString.simps [simp del]

subsection \<open>JavaScript values\<close>

text \<open>
  The values that reach the classifier: what \<open>response.json()\<close> decodes (numbers are kept
  as integers, only their being zero matters here), \<open>undefined\<close>, and instances of
  \<open>Error\<close> with their \<open>message\<close>. An object is the list of its own properties.
\<close>

datatype jsval =
    Undefined
  | Null
  | Bool bool
  | Num int
  | Str string
  | Arr "jsval list"
  | Obj "(string \<times> jsval) list"
  | ErrorInstance string

text \<open>The operand test of \<open>||\<close> and \<open>!\<close>.\<close>

fun truthy :: "jsval \<Rightarrow> bool" where
  "truthy Undefined = False"
| "truthy Null = False"
| "truthy (Bool b) = b"
| "truthy (Num n) = (n \<noteq> 0)"
| "truthy (Str s) = (s \<noteq> [])"
| "truthy (Arr xs) = True"
| "truthy (Obj kvs) = True"
| "truthy (ErrorInstance m) = True"

text \<open>
  Every exception of this model is an instance of \<open>Error\<close> and is given by its
  \<open>message\<close>: the rejections of \<open>fetch\<close> and \<open>reader.read\<close> are \<open>TypeError\<close>s or
  \<open>DOMException\<close>s, and so are the exceptions of the language itself. The message of the
  latter is the engine's own wording, so it is a parameter of the model. A result
  \<open>Inl m\<close> says that the evaluation throws an \<open>Error\<close> with message \<open>m\<close>.

  The engine also decides when React, which runs on it, gets to process the state
  updates that are queued: \<open>processes_updates_after k\<close> says whether React processes its
  queue after the \<open>setMessages\<close> for chunk \<open>k\<close> of a stream (counted from 0) and before
  the next \<open>reader.read()\<close> resolves. It does when the chunks arrive apart, and does not
  when the next chunk is already there.
\<close>

type_synonym thrown = string

record js_engine =
  null_property_message :: string
  not_a_function_message :: string
  processes_updates_after :: "nat \<Rightarrow> bool"

text \<open>
  \<open>v.detail\<close>: reading a property of \<open>null\<close> or \<open>undefined\<close> throws, an object gives
  its property, any other value has no such property. \<open>v?.detail\<close> gives \<open>undefined\<close>
  where \<open>v.detail\<close> throws.
\<close>

fun get_detail :: "js_engine \<Rightarrow> jsval \<Rightarrow> thrown + jsval" where
  "get_detail eng Undefined = Inl (null_property_message eng)"
| "get_detail eng Null = Inl (null_property_message eng)"
| "get_detail eng (Obj kvs) = Inr (case map_of kvs ''detail'' of None \<Rightarrow> Undefined | Some v \<Rightarrow> v)"
| "get_detail eng v = Inr Undefined"

fun get_detail_optional :: "jsval \<Rightarrow> jsval" where
  "get_detail_optional (Obj kvs) = (case map_of kvs ''detail'' of None \<Rightarrow> Undefined | Some v \<Rightarrow> v)"
| "get_detail_optional v = Undefined"

subsection \<open>Toasts\<close>

datatype toast_type = Error | Success | Warning | Info

record toast =
  id_toast :: string
  message :: string
  type :: toast_type

text \<open>
  \<open>addToast\<close> reads the clock: \<open>now\<close> is the value of \<open>Date.now()\<close> at the call.
\<close>

definition addToast :: "nat \<Rightarrow> string \<Rightarrow> toast_type \<Rightarrow> toast list \<Rightarrow> toast list" where
  "addToast now msg ty prev = prev @ [\<lparr>id_toast = toString now, message = msg, type = ty\<rparr>]"

definition removeToast :: "string \<Rightarrow> toast list \<Rightarrow> toast list" where
  "removeToast i prev = filter (\<lambda>t. id_toast t \<noteq> i) prev"

subsection \<open>The error classifier\<close>

text \<open>
  \<open>errorString\<close> is the first statement of \<open>parseErrorMessage\<close>. Nothing makes it a
  string: a truthy \<open>detail\<close> of any type is taken as it is.
\<close>

fun errorString :: "jsval \<Rightarrow> jsval" where
  "errorString (ErrorInstance m) = Str m"
| "errorString (Str s) = Str s"
| "errorString v =
     (if truthy (get_detail_optional v) then get_detail_optional v
      else Str ''Unknown error occurred'')"

text \<open>
  \<open>errorString.toLowerCase().includes(k)\<close>: a value that is not a string has no method
  \<open>toLowerCase\<close>, and the call throws.
\<close>

fun lower_includes :: "js_engine \<Rightarrow> jsval \<Rightarrow> string \<Rightarrow> thrown + bool" where
  "lower_includes eng (Str s) k = Inr (str_includes (toLowerCase s) k)"
| "lower_includes eng v k = Inl (not_a_function_message eng)"

text \<open>
  \<open>a || b\<close> on conditions that may throw: \<open>b\<close> is only evaluated when \<open>a\<close> is false,
  and an exception in \<open>a\<close> ends the evaluation. \<open>if (c) return r; rest\<close> likewise.
\<close>

definition js_or :: "thrown + bool \<Rightarrow> thrown + bool \<Rightarrow> thrown + bool" where
  "js_or a b = (case a of Inl e \<Rightarrow> Inl e | Inr True \<Rightarrow> Inr True | Inr False \<Rightarrow> b)"

definition if_return :: "thrown + bool \<Rightarrow> 'a \<Rightarrow> thrown + 'a \<Rightarrow> thrown + 'a" where
  "if_return c r rest = (case c of Inl e \<Rightarrow> Inl e | Inr True \<Rightarrow> Inr r | Inr False \<Rightarrow> rest)"

text \<open>
  The template literal of the default branch. It is only reached with a string: any
  other \<open>errorString\<close> has thrown in the first condition or returned there.
\<close>

definition default_message :: "jsval \<Rightarrow> string" where
  "default_message es = ''Error: '' @ (case es of Str s \<Rightarrow> s | _ \<Rightarrow> [])"

definition parseErrorMessage :: "js_engine \<Rightarrow> jsval \<Rightarrow> nat option \<Rightarrow> thrown + (string \<times> toast_type)" where
  "parseErrorMessage eng err st =
     (let es = errorString err; inc = lower_includes eng es in
      if_return (js_or (Inr (st = Some 401)) (js_or (inc ''unauthorized'') (inc ''invalid api key'')))
        (''Invalid API key. Please check your OpenAI API key and try again.'', Error)
     (if_return (js_or (Inr (st = Some 429)) (js_or (inc ''rate limit'') (inc ''quota'')))
        (''Rate limit exceeded or insufficient quota. Please check your OpenAI account.'', Warning)
     (if_return (js_or (Inr (st = Some 400)) (inc ''bad request''))
        (''Invalid request. Please check your input and selected model.'', Error)
     (if_return (js_or (Inr (st = Some 404)) (inc ''not found''))
        (''Model not found. Please select a different model.'', Error)
     (if_return (js_or (Inr (st = Some 500)) (inc ''internal server error''))
        (''OpenAI service is temporarily unavailable. Please try again later.'', Error)
     (if_return (js_or (inc ''network'') (inc ''fetch''))
        (''Network error. Please check your internet connection and try again.'', Error)
     (Inr (default_message es, Error))))))))"

subsection \<open>The conversation state\<close>

datatype role = User | Assistant

record chat_message =
  role :: role
  content :: string

record request =
  developer_message :: string
  user_message :: string
  request_model :: string
  api_key :: string

text \<open>
  The state hooks of \<open>ChatInterface\<close>, and two logs that the component does not have:
  \<open>requests\<close> holds the body of every call of \<open>fetch\<close>, \<open>stream_updates\<close> the message
  list that each updater of the read loop returns, in the order in which React runs
  them.
\<close>

record chat_state =
  messages :: "chat_message list"
  userMessage :: string
  developerMessage :: string
  apiKey :: string
  model :: string
  isLoading :: bool
  error :: string
  toasts :: "toast list"
  requests :: "request list"
  stream_updates :: "chat_message list list"

subsection \<open>The network\<close>

text \<open>
  What the outside does during one \<open>handleSubmit\<close>. \<open>fetch\<close> rejects or resolves with a
  response; \<open>json\<close> is what \<open>response.json()\<close> resolves with (\<open>None\<close>: it rejects, the
  body is no JSON); \<open>body\<close> is \<open>response.body\<close> (\<open>None\<close>: \<open>null\<close>), given by the texts
  that the decoder returns for the chunks read, in order, and by how the reading ends.
  The stream is finite.
\<close>

datatype read_end = Done | ReadRejects thrown

record response =
  status :: nat
  statusText :: string
  json :: "jsval option"
  body :: "(string list \<times> read_end) option"

datatype fetch_result = FetchRejects thrown | FetchResolves response

definition ok :: "response \<Rightarrow> bool" where
  "ok r = (200 \<le> status r \<and> status r \<le> 299)"

subsection \<open>\<open>handleSubmit\<close>\<close>

text \<open>How a block of statements ends: at its end, in a \<open>return\<close>, or in an exception.\<close>

datatype 'a flow = Normal 'a | Returned 'a | Throws thrown 'a

text \<open>
  The updater that the read loop passes to \<open>setMessages\<close>, for the value \<open>c\<close> that
  \<open>assistantContent\<close> has when it is called. On an empty list the assignment to index -1
  creates no element.
\<close>

definition set_last_content :: "chat_message list \<Rightarrow> string \<Rightarrow> chat_message list" where
  "set_last_content prev c =
     (if prev = [] then prev
      else prev[length prev - 1 := (prev ! (length prev - 1))\<lparr>content := c\<rparr>])"

text \<open>
  \<open>setMessages(f)\<close> puts the updater \<open>f\<close> into the queue of React, which calls it
  later with the list of that time. The updater of the read loop reads the variable
  \<open>assistantContent\<close> when it is called, not when it is queued, and the loop appends to
  that variable with every chunk. All updaters of the loop that wait in the queue are the
  same function; \<open>run_updaters n c\<close> is React calling \<open>n\<close> of them while the variable
  holds \<open>c\<close>.

  Every other updater of \<open>handleSubmit\<close> reads nothing that changes, so the list it
  gives does not depend on when it is called: the model calls it where it is queued.
\<close>

fun run_updaters :: "nat \<Rightarrow> string \<Rightarrow> chat_state \<Rightarrow> chat_state" where
  "run_updaters 0 assistantContent s = s"
| "run_updaters (Suc n) assistantContent s =
     (let updated = set_last_content (messages s) assistantContent
      in run_updaters n assistantContent
           (s\<lparr>messages := updated, stream_updates := stream_updates s @ [updated]\<rparr>))"

text \<open>
  The \<open>while (true)\<close> loop over the chunks that are read before the stream ends. \<open>k\<close>
  counts the chunks read before, \<open>pending\<close> the updaters of the loop that wait in the
  queue. When the loop is left the variable does not change any more: the updaters that
  still wait give the same lists whenever React calls them, and React calls them before
  any updater that is queued later.
\<close>

fun read_loop ::
  "(nat \<Rightarrow> bool) \<Rightarrow> nat \<Rightarrow> string list \<Rightarrow> string \<Rightarrow> nat \<Rightarrow> chat_state \<Rightarrow> string \<times> chat_state" where
  "read_loop processes k [] assistantContent pending s =
     (assistantContent, run_updaters pending assistantContent s)"
| "read_loop processes k (chunk # rest) assistantContent pending s =
     (let assistantContent' = assistantContent @ chunk
      in if processes k
         then read_loop processes (Suc k) rest assistantContent' 0
                (run_updaters (Suc pending) assistantContent' s)
         else read_loop processes (Suc k) rest assistantContent' (Suc pending) s)"

text \<open>The three statements that report a classified failure.\<close>

definition report :: "nat \<Rightarrow> string \<times> toast_type \<Rightarrow> chat_state \<Rightarrow> chat_state" where
  "report now r s =
     s\<lparr>toasts := addToast now (fst r) (snd r) (toasts s),
       error := fst r,
       messages := butlast (messages s)\<rparr>"

text \<open>The inner \<open>try\<close> block: the loop and the test of what was accumulated.\<close>

definition inner_try :: "js_engine \<Rightarrow> nat \<Rightarrow> string list \<times> read_end \<Rightarrow> chat_state \<Rightarrow> chat_state flow" where
  "inner_try eng now stream s =
     (let (assistantContent, s') =
            read_loop (processes_updates_after eng) 0 (fst stream) [] 0 s in
      case snd stream of
        ReadRejects m \<Rightarrow> Throws m s'
      | Done \<Rightarrow>
          if trim assistantContent \<noteq> []
          then Normal (s'\<lparr>toasts := addToast now ''Message sent successfully!'' Success (toasts s')\<rparr>)
          else (case parseErrorMessage eng
                       (Str ''No response received from AI. This usually indicates an invalid API key or authentication issue.'')
                       (Some 401) of
                  Inl e \<Rightarrow> Throws e s'
                | Inr r \<Rightarrow> Returned (report now r s')))"

text \<open>The inner \<open>catch (streamError)\<close> block.\<close>

definition inner_catch :: "js_engine \<Rightarrow> nat \<Rightarrow> thrown \<Rightarrow> chat_state \<Rightarrow> chat_state flow" where
  "inner_catch eng now errorMessage s =
     (let finalError =
            (if str_includes (toLowerCase errorMessage) ''connection'' \<or>
                str_includes (toLowerCase errorMessage) ''network'' \<or>
                str_includes (toLowerCase errorMessage) ''chunk''
             then Str ''Connection failed while reading AI response. This usually indicates an invalid API key or authentication issue. Please check your OpenAI API key.''
             else ErrorInstance errorMessage)
      in case parseErrorMessage eng finalError (Some 401) of
           Inl e \<Rightarrow> Throws e s
         | Inr r \<Rightarrow> Returned (report now r s))"

text \<open>
  The inner \<open>try\<close> of the branch \<open>if (!response.ok)\<close>: the decoded body, or the
  object made from the status line when the body is no JSON.
\<close>

definition error_body :: "response \<Rightarrow> jsval" where
  "error_body r =
     (case json r of
        Some v \<Rightarrow> v
      | None \<Rightarrow> Obj [(''detail'', Str (''HTTP '' @ toString (status r) @ '': '' @ statusText r))])"

text \<open>The branch \<open>if (!response.ok)\<close>.\<close>

definition not_ok_block :: "js_engine \<Rightarrow> nat \<Rightarrow> response \<Rightarrow> chat_state \<Rightarrow> chat_state flow" where
  "not_ok_block eng now r s =
     (let errorData = error_body r
      in case get_detail eng errorData of
           Inl e \<Rightarrow> Throws e s
         | Inr d \<Rightarrow>
             (case parseErrorMessage eng (if truthy d then d else errorData) (Some (status r)) of
                Inl e \<Rightarrow> Throws e s
              | Inr res \<Rightarrow> Returned (report now res s)))"

text \<open>The outer \<open>try\<close> block, from the \<open>fetch\<close> to \<open>setUserMessage("")\<close>.\<close>

definition try_block :: "js_engine \<Rightarrow> nat \<Rightarrow> fetch_result \<Rightarrow> chat_state \<Rightarrow> chat_state flow" where
  "try_block eng now net s =
     (case net of
        FetchRejects m \<Rightarrow> Throws m s
      | FetchResolves r \<Rightarrow>
          if \<not> ok r then not_ok_block eng now r s
          else
            let s2 = s\<lparr>messages := messages s @ [\<lparr>role = Assistant, content = []\<rparr>]\<rparr> in
            (case body r of
               None \<Rightarrow> Normal (s2\<lparr>userMessage := []\<rparr>)
             | Some stream \<Rightarrow>
                 (case (case inner_try eng now stream s2 of
                          Throws m s3 \<Rightarrow> inner_catch eng now m s3
                        | fl \<Rightarrow> fl) of
                    Normal s4 \<Rightarrow> Normal (s4\<lparr>userMessage := []\<rparr>)
                  | fl \<Rightarrow> fl)))"

text \<open>
  The outer \<open>catch (error)\<close> block. Were the classifier to throw here, the exception
  would leave \<open>handleSubmit\<close> with nothing reported.
\<close>

definition catch_block :: "js_engine \<Rightarrow> nat \<Rightarrow> thrown \<Rightarrow> chat_state \<Rightarrow> chat_state" where
  "catch_block eng now m s =
     (case parseErrorMessage eng (ErrorInstance m) None of
        Inl e \<Rightarrow> s
      | Inr r \<Rightarrow> report now r s)"

text \<open>
  The statements between the validation and the \<open>try\<close>: the error is cleared, the
  request is marked as in flight, the user message is appended. The body of the request
  is logged here; the \<open>fetch\<close> that sends it is the first statement of the \<open>try\<close>.
\<close>

definition begin_request :: "chat_state \<Rightarrow> chat_state" where
  "begin_request s =
     s\<lparr>error := [], isLoading := True,
       messages := messages s @ [\<lparr>role = User, content = userMessage s\<rparr>],
       requests := requests s @
         [\<lparr>developer_message =
             (if developerMessage s = [] then ''You are a helpful assistant.''
              else developerMessage s),
           user_message = userMessage s,
           request_model = model s,
           api_key = apiKey s\<rparr>]\<rparr>"

text \<open>
  \<open>handleSubmit\<close> itself. \<open>now\<close> is the clock reading at the one \<open>addToast\<close> that a call
  makes, \<open>net\<close> what the network does with the request. The \<open>finally\<close> block runs on
  every way out of the \<open>try\<close>; the two validation returns are before it.
\<close>

definition handleSubmit :: "js_engine \<Rightarrow> nat \<Rightarrow> fetch_result \<Rightarrow> chat_state \<Rightarrow> chat_state" where
  "handleSubmit eng now net s =
     (if trim (apiKey s) = []
      then s\<lparr>toasts := addToast now ''Please enter your OpenAI API key'' Warning (toasts s)\<rparr>
      else if trim (userMessage s) = []
      then s\<lparr>toasts := addToast now ''Please enter a message'' Warning (toasts s)\<rparr>
      else
        let s' = (case try_block eng now net (begin_request s) of
                    Normal t \<Rightarrow> t
                  | Returned t \<Rightarrow> t
                  | Throws m t \<Rightarrow> catch_block eng now m t)
        in s'\<lparr>isLoading := False\<rparr>)"

text \<open>\<open>clearChat\<close>, and the \<open>disabled\<close> attributes of the message input and of the submit button.\<close>

definition clearChat :: "nat \<Rightarrow> chat_state \<Rightarrow> chat_state" where
  "clearChat now s = s\<lparr>messages := [], error := [], toasts := addToast now ''Chat cleared'' Info (toasts s)\<rparr>"



subsection \<open>The messages of \<open>ErrorHandlingDemo.tsx\<close>\<close>

text \<open>
  The table \<open>errorScenarios\<close> of \<open>frontend/src/components/ErrorHandlingDemo.tsx\<close> lists
  the messages that the error handling shows.
\<close>

definition missingApiKey :: string where
  "missingApiKey = ''Please enter your OpenAI API key''"

definition invalidApiKey :: string where
  "invalidApiKey = ''Invalid API key. Please check your OpenAI API key and try again.''"

definition rateLimit :: string where
  "rateLimit = ''Rate limit exceeded or insufficient quota. Please check your OpenAI account.''"

definition badRequest :: string where
  "badRequest = ''Invalid request. Please check your input and selected model.''"

definition modelNotFound :: string where
  "modelNotFound = ''Model not found. Please select a different model.''"

definition serverError :: string where
  "serverError = ''OpenAI service is temporarily unavailable. Please try again later.''"

definition networkError :: string where
  "networkError = ''Network error. Please check your internet connection and try again.''"

subsection \<open>The classification rules as the specification lists them\<close>

text \<open>
  Section 4.2 of the specification gives the classifier as a list of rules, tried in
  order: a rule applies when the status is the rule's or when the text of the failure,
  in lower case, contains one of the rule's keywords; when none applies the message is
  the text after \<open>Error: \<close>, with severity error.
\<close>

record rule =
  rule_status :: "nat option"
  rule_keywords :: "string list"
  rule_message :: string
  rule_severity :: toast_type

definition spec_rules :: "rule list" where
  "spec_rules =
     [\<lparr>rule_status = Some 401, rule_keywords = [''unauthorized'', ''invalid api key''],
        rule_message = invalidApiKey, rule_severity = Error\<rparr>,
      \<lparr>rule_status = Some 429, rule_keywords = [''rate limit'', ''quota''],
        rule_message = rateLimit, rule_severity = Warning\<rparr>,
      \<lparr>rule_status = Some 400, rule_keywords = [''bad request''],
        rule_message = badRequest, rule_severity = Error\<rparr>,
      \<lparr>rule_status = Some 404, rule_keywords = [''not found''],
        rule_message = modelNotFound, rule_severity = Error\<rparr>,
      \<lparr>rule_status = Some 500, rule_keywords = [''internal server error''],
        rule_message = serverError, rule_severity = Error\<rparr>,
      \<lparr>rule_status = None, rule_keywords = [''network'', ''fetch''],
        rule_message = networkError, rule_severity = Error\<rparr>]"

definition spec_rule_matches :: "string \<Rightarrow> nat option \<Rightarrow> rule \<Rightarrow> bool" where
  "spec_rule_matches txt st rl =
     ((rule_status rl \<noteq> None \<and> st = rule_status rl) \<or>
      list_ex (\<lambda>k. str_includes (toLowerCase txt) k) (rule_keywords rl))"

definition spec_classify :: "string \<Rightarrow> nat option \<Rightarrow> string \<times> toast_type" where
  "spec_classify txt st =
     (case find (spec_rule_matches txt st) spec_rules of
        Some rl \<Rightarrow> (rule_message rl, rule_severity rl)
      | None \<Rightarrow> (''Error: '' @ txt, Error))"

subsection \<open>Concrete inputs\<close>

text \<open>
  An engine with the wording of V8 on which React processes every update of the read
  loop before the next chunk is read, the same engine with all chunks read before React
  processes anything, and a conversation that has not started, with a message and a key
  typed in.
\<close>

definition v8 :: js_engine where
  "v8 = \<lparr>null_property_message = ''Cannot read properties of null (reading 'detail')'',
         not_a_function_message = ''errorString.toLowerCase is not a function'',
         processes_updates_after = (\<lambda>k. True)\<rparr>"


definition fresh_chat :: chat_state where
  "fresh_chat = \<lparr>messages = [], userMessage = ''Hi'', developerMessage = [], apiKey = ''sk-test'',
     model = ''gpt-4'', isLoading = False, error = [], toasts = [], requests = [],
     stream_updates = []\<rparr>"

text \<open>
  Responses: a stream of three chunks, a stream of white space, a stream that ends at
  once, a response without a body (as a 204 has), and a stream that breaks.
\<close>

definition hello_response :: response where
  "hello_response = \<lparr>status = 200, statusText = ''OK'', json = None,
     body = Some ([''He'', ''llo'', ''!''], Done)\<rparr>"

definition blank_response :: response where
  "blank_response = \<lparr>status = 200, statusText = ''OK'', json = None,
     body = Some ([[CHR '' ''], [], [CHR 0x0A]], Done)\<rparr>"

definition empty_response :: response where
  "empty_response = \<lparr>status = 200, statusText = ''OK'', json = None, body = Some ([], Done)\<rparr>"

definition no_content_response :: response where
  "no_content_response = \<lparr>status = 204, statusText = ''No Content'', json = None, body = None\<rparr>"

definition broken_response :: response where
  "broken_response = \<lparr>status = 200, statusText = ''OK'', json = None,
     body = Some ([''Hi''], ReadRejects ''boom'')\<rparr>"

text \<open>
  Error bodies: an object whose \<open>detail\<close> is an object, and the response that carries it
  under \<open>detail\<close>; a response whose body is the JSON text \<open>null\<close>; a 429 whose text
  speaks of authorisation; a 404 whose body is no JSON.
\<close>

definition nested_detail :: jsval where
  "nested_detail = Obj [(''detail'', Obj [(''code'', Str ''rate_limit_exceeded'')])]"

definition nested_response :: response where
  "nested_response = \<lparr>status = 429, statusText = ''Too Many Requests'',
     json = Some (Obj [(''detail'', nested_detail)]), body = None\<rparr>"




section \<open>Properties\<close>

subsection \<open>Strings, status 401 and the read loop\<close>

lemma parse_401: "parseErrorMessage eng v (Some 401) = Inr (invalidApiKey, Error)"
  by (simp add: parseErrorMessage_def js_or_def if_return_def Let_def invalidApiKey_def)

lemma str_includes_iff: "str_includes s sub \<longleftrightarrow> (\<exists>ps ss. s = ps @ sub @ ss)"
proof (induction s)
  case Nil
  then show ?case by auto
next
  case (Cons c cs)
  show ?case
  proof
    assume "str_includes (c # cs) sub"
    then consider "prefix sub (c # cs)" | "str_includes cs sub" by auto
    then show "\<exists>ps ss. c # cs = ps @ sub @ ss"
    proof cases
      case 1
      then obtain ss where "c # cs = sub @ ss" by (auto simp: prefix_def)
      then have "c # cs = [] @ sub @ ss" by simp
      then show ?thesis by blast
    next
      case 2
      with Cons.IH obtain ps ss where "cs = ps @ sub @ ss" by blast
      then have "c # cs = (c # ps) @ sub @ ss" by simp
      then show ?thesis by blast
    qed
  next
    assume "\<exists>ps ss. c # cs = ps @ sub @ ss"
    then obtain ps ss where eq: "c # cs = ps @ sub @ ss" by blast
    show "str_includes (c # cs) sub"
    proof (cases ps)
      case Nil
      with eq have "prefix sub (c # cs)" by (simp add: prefix_def)
      then show ?thesis by simp
    next
      case (Cons p ps')
      with eq have "cs = ps' @ sub @ ss" by simp
      with Cons.IH have "str_includes cs sub" by blast
      then show ?thesis by simp
    qed
  qed
qed

lemma trim_empty_iff: "trim s = [] \<longleftrightarrow> list_all is_white_space s"
proof
  assume "trim s = []"
  then have all: "\<forall>x\<in>set (dropWhile is_white_space s). is_white_space x"
    by (simp add: trim_def dropWhile_eq_Nil_conv)
  have "dropWhile is_white_space s = []"
  proof (rule ccontr)
    assume ne: "dropWhile is_white_space s \<noteq> []"
    then have "\<not> is_white_space (hd (dropWhile is_white_space s))"
      by (rule hd_dropWhile)
    moreover from ne have "hd (dropWhile is_white_space s) \<in> set (dropWhile is_white_space s)"
      by simp
    ultimately show False using all by blast
  qed
  then show "list_all is_white_space s"
    by (simp add: dropWhile_eq_Nil_conv list_all_iff)
next
  assume "list_all is_white_space s"
  then have "dropWhile is_white_space s = []"
    by (simp add: dropWhile_eq_Nil_conv list_all_iff)
  then show "trim s = []" unfolding trim_def by (simp del: dropWhile_eq_Nil_conv)
qed

text \<open>
  React calling \<open>n\<close> waiting updaters of the read loop on a list that ends in the
  assistant message: each gives the list with that message set to the value the variable
  has at that time.
\<close>

lemma run_updaters_run:
  assumes "messages s = pre @ [\<lparr>role = Assistant, content = c0\<rparr>]"
  shows "run_updaters n c s =
    s\<lparr>messages := (if n = 0 then messages s else pre @ [\<lparr>role = Assistant, content = c\<rparr>]),
      stream_updates := stream_updates s @ replicate n (pre @ [\<lparr>role = Assistant, content = c\<rparr>])\<rparr>"
  using assms
proof (induction n arbitrary: s c0)
  case 0
  then show ?case by simp
next
  case (Suc n)
  let ?upd = "pre @ [\<lparr>role = Assistant, content = c\<rparr>]"
  have upd: "set_last_content (messages s) c = ?upd"
    using Suc.prems by (simp add: set_last_content_def nth_append list_update_append)
  let ?s = "s\<lparr>messages := ?upd, stream_updates := stream_updates s @ [?upd]\<rparr>"
  have "messages ?s = pre @ [\<lparr>role = Assistant, content = c\<rparr>]" by simp
  note IH = Suc.IH [OF this]
  have "run_updaters (Suc n) c s = run_updaters n c ?s"
    by (simp add: upd Let_def)
  then show ?case
    unfolding IH by (simp add: replicate_app_Cons_same)
qed

text \<open>
  The read loop on such a list, for any schedule. It leaves the concatenation of the
  chunks in the variable and, if an updater ran, in the assistant message. The updaters
  run in the order of their chunks, one per chunk, and updater \<open>i\<close> gives the assistant
  message the concatenation of the first \<open>js ! i\<close> chunks: those read when React called
  it, not fewer than those read when it was queued.
\<close>

lemma read_loop_run:
  assumes "messages s = pre @ [\<lparr>role = Assistant, content = c0\<rparr>]"
  shows "\<exists>js. read_loop f k chunks acc p s =
           (acc @ concat chunks,
            s\<lparr>messages := (if p + length chunks = 0 then messages s
                            else pre @ [\<lparr>role = Assistant, content = acc @ concat chunks\<rparr>]),
              stream_updates := stream_updates s @
                map (\<lambda>j. pre @ [\<lparr>role = Assistant, content = acc @ concat (take j chunks)\<rparr>]) js\<rparr>) \<and>
         length js = p + length chunks \<and> sorted js \<and>
         (\<forall>i < length js. js ! i \<le> length chunks \<and> (p \<le> i \<longrightarrow> i - p < js ! i))"
  using assms
proof (induction chunks arbitrary: k acc p s c0)
  case Nil
  have "read_loop f k [] acc p s =
          (acc @ concat [],
           s\<lparr>messages := (if p + length ([] :: string list) = 0 then messages s
                           else pre @ [\<lparr>role = Assistant, content = acc @ concat []\<rparr>]),
             stream_updates := stream_updates s @
               map (\<lambda>j. pre @ [\<lparr>role = Assistant, content = acc @ concat (take j [])\<rparr>])
                 (replicate p 0)\<rparr>)"
    by (simp add: run_updaters_run [OF Nil.prems])
  moreover have "length (replicate p (0::nat)) = p + length ([] :: string list)" by simp
  moreover have "sorted (replicate p (0::nat))" by (simp add: sorted_replicate)
  moreover have "\<forall>i < length (replicate p (0::nat)).
      replicate p 0 ! i \<le> length ([] :: string list) \<and> (p \<le> i \<longrightarrow> i - p < replicate p 0 ! i)"
    by simp
  ultimately show ?case by blast
next
  case (Cons chunk rest)
  let ?acc = "acc @ chunk"
  let ?m = "\<lambda>cs a j. pre @ [\<lparr>role = Assistant, content = a @ concat (take j cs)\<rparr>]"
  show ?case
  proof (cases "f k")
    case True
    let ?s = "run_updaters (Suc p) ?acc s"
    have s1: "?s = s\<lparr>messages := pre @ [\<lparr>role = Assistant, content = ?acc\<rparr>],
                      stream_updates := stream_updates s @
                        replicate (Suc p) (pre @ [\<lparr>role = Assistant, content = ?acc\<rparr>])\<rparr>"
      by (simp add: run_updaters_run [OF Cons.prems])
    then have m1: "messages ?s = pre @ [\<lparr>role = Assistant, content = ?acc\<rparr>]" by simp
    from Cons.IH [OF m1, of "Suc k" ?acc 0] obtain js where
      run: "read_loop f (Suc k) rest ?acc 0 ?s =
              (?acc @ concat rest,
               ?s\<lparr>messages := (if 0 + length rest = 0 then messages ?s
                                else pre @ [\<lparr>role = Assistant, content = ?acc @ concat rest\<rparr>]),
                  stream_updates := stream_updates ?s @ map (?m rest ?acc) js\<rparr>)"
      and len: "length js = 0 + length rest" and srt: "sorted js"
      and bnd: "\<forall>i < length js. js ! i \<le> length rest \<and> (0 \<le> i \<longrightarrow> i - 0 < js ! i)"
      by blast
    let ?js = "replicate (Suc p) (Suc 0) @ map Suc js"
    have step: "read_loop f k (chunk # rest) acc p s = read_loop f (Suc k) rest ?acc 0 ?s"
      using True by (simp add: Let_def)
    have "read_loop f k (chunk # rest) acc p s =
            ((acc @ concat (chunk # rest)),
             s\<lparr>messages := (if p + length (chunk # rest) = 0 then messages s
                             else pre @ [\<lparr>role = Assistant, content = acc @ concat (chunk # rest)\<rparr>]),
               stream_updates := stream_updates s @ map (?m (chunk # rest) acc) ?js\<rparr>)"
      using run [unfolded s1] unfolding step s1 by (simp add: comp_def)
    moreover have "length ?js = p + length (chunk # rest)" using len by simp
    moreover have "sorted ?js"
      using srt by (auto simp: sorted_append sorted_replicate sorted_map intro: sorted_wrt_mono_rel)
    moreover have "\<forall>i < length ?js. ?js ! i \<le> length (chunk # rest) \<and> (p \<le> i \<longrightarrow> i - p < ?js ! i)"
    proof (intro allI impI)
      fix i assume i: "i < length ?js"
      show "?js ! i \<le> length (chunk # rest) \<and> (p \<le> i \<longrightarrow> i - p < ?js ! i)"
      proof (cases "i < Suc p")
        case True
        then have "?js ! i = replicate (Suc p) (Suc 0) ! i"
          by (simp only: nth_append length_replicate if_True)
        also from True have "\<dots> = Suc 0" by (rule nth_replicate)
        finally show ?thesis using True by auto
      next
        case False
        with i have ii: "i - Suc p < length js" by simp
        with bnd have b: "js ! (i - Suc p) \<le> length rest" "i - Suc p < js ! (i - Suc p)" by auto
        from False have "?js ! i = map Suc js ! (i - Suc p)"
          by (simp only: nth_append length_replicate if_False)
        also from ii have "\<dots> = Suc (js ! (i - Suc p))" by simp
        finally show ?thesis using b False by auto
      qed
    qed
    ultimately show ?thesis by blast
  next
    case False
    from Cons.IH [OF Cons.prems, of "Suc k" ?acc "Suc p"] obtain js where
      run: "read_loop f (Suc k) rest ?acc (Suc p) s =
              (?acc @ concat rest,
               s\<lparr>messages := (if Suc p + length rest = 0 then messages s
                               else pre @ [\<lparr>role = Assistant, content = ?acc @ concat rest\<rparr>]),
                 stream_updates := stream_updates s @ map (?m rest ?acc) js\<rparr>)"
      and len: "length js = Suc p + length rest" and srt: "sorted js"
      and bnd: "\<forall>i < length js. js ! i \<le> length rest \<and> (Suc p \<le> i \<longrightarrow> i - Suc p < js ! i)"
      by blast
    let ?js = "map Suc js"
    have step: "read_loop f k (chunk # rest) acc p s = read_loop f (Suc k) rest ?acc (Suc p) s"
      using False by (simp add: Let_def)
    have "read_loop f k (chunk # rest) acc p s =
            ((acc @ concat (chunk # rest)),
             s\<lparr>messages := (if p + length (chunk # rest) = 0 then messages s
                             else pre @ [\<lparr>role = Assistant, content = acc @ concat (chunk # rest)\<rparr>]),
               stream_updates := stream_updates s @ map (?m (chunk # rest) acc) ?js\<rparr>)"
      unfolding step run by (simp add: comp_def)
    moreover have "length ?js = p + length (chunk # rest)" using len by simp
    moreover have "sorted ?js" using srt by (simp add: sorted_map sorted_wrt_mono_rel [of js "(\<le>)"])
    moreover have "\<forall>i < length ?js. ?js ! i \<le> length (chunk # rest) \<and> (p \<le> i \<longrightarrow> i - p < ?js ! i)"
    proof (intro allI impI)
      fix i assume i: "i < length ?js"
      then have ii: "i < length js" by simp
      with bnd have a: "js ! i \<le> length rest" and b: "Suc p \<le> i \<longrightarrow> i - Suc p < js ! i" by auto
      from a b ii show "?js ! i \<le> length (chunk # rest) \<and> (p \<le> i \<longrightarrow> i - p < ?js ! i)"
        by (auto simp: Suc_diff_le)
    qed
    ultimately show ?thesis by blast
  qed
qed


lemma read_loop_fields:
  assumes "messages s = pre @ [\<lparr>role = Assistant, content = c0\<rparr>]"
  shows "read_loop f k chunks acc 0 s =
     (acc @ concat chunks,
      s\<lparr>messages := (if chunks = [] then messages s
                      else pre @ [\<lparr>role = Assistant, content = acc @ concat chunks\<rparr>]),
        stream_updates := stream_updates (snd (read_loop f k chunks acc 0 s))\<rparr>)"
proof -
  from read_loop_run [OF assms, of f k chunks acc 0] obtain js where
    "read_loop f k chunks acc 0 s =
       (acc @ concat chunks,
        s\<lparr>messages := (if 0 + length chunks = 0 then messages s
                        else pre @ [\<lparr>role = Assistant, content = acc @ concat chunks\<rparr>]),
          stream_updates := stream_updates s @
            map (\<lambda>j. pre @ [\<lparr>role = Assistant, content = acc @ concat (take j chunks)\<rparr>]) js\<rparr>)"
    by blast
  then show ?thesis by simp
qed

subsection \<open>Validation\<close>

text \<open>
  Claim C2. A submit whose API key or whose message is empty or consists of white space
  issues no request and leaves the message list as it is; the state changes in one
  respect only, a single toast of type warning is appended.
\<close>

theorem blank_submit_rejected:
  assumes "list_all is_white_space (apiKey s) \<or> list_all is_white_space (userMessage s)"
  shows "requests (handleSubmit eng now net s) = requests s \<and>
         messages (handleSubmit eng now net s) = messages s \<and>
         (\<exists>t. type t = Warning \<and> message t \<in> {missingApiKey, ''Please enter a message''} \<and>
              handleSubmit eng now net s = s\<lparr>toasts := toasts s @ [t]\<rparr>)"
proof (cases "trim (apiKey s) = []")
  case True
  let ?t = "\<lparr>id_toast = toString now, message = ''Please enter your OpenAI API key'', type = Warning\<rparr>"
  have run: "handleSubmit eng now net s = s\<lparr>toasts := toasts s @ [?t]\<rparr>"
    using True by (simp add: handleSubmit_def addToast_def)
  show ?thesis unfolding run by (intro conjI exI [of _ ?t]) (simp_all add: missingApiKey_def)
next
  case False
  with assms have blank: "trim (userMessage s) = []"
    by (simp add: trim_empty_iff)
  let ?t = "\<lparr>id_toast = toString now, message = ''Please enter a message'', type = Warning\<rparr>"
  have run: "handleSubmit eng now net s = s\<lparr>toasts := toasts s @ [?t]\<rparr>"
    using False blank by (simp add: handleSubmit_def addToast_def)
  show ?thesis unfolding run by (intro conjI exI [of _ ?t]) (simp_all add: missingApiKey_def)
qed

theorem blank_submit_rejected_witness:
  "list_all is_white_space (apiKey (fresh_chat\<lparr>apiKey := '' ''\<rparr>)) \<and>
   requests (handleSubmit v8 1000 (FetchRejects ''Failed to fetch'') (fresh_chat\<lparr>apiKey := '' ''\<rparr>)) = [] \<and>
   messages (handleSubmit v8 1000 (FetchRejects ''Failed to fetch'') (fresh_chat\<lparr>apiKey := '' ''\<rparr>)) = []"
proof -
  have h: "list_all is_white_space (apiKey (fresh_chat\<lparr>apiKey := '' ''\<rparr>))"
    by (simp add: is_white_space_def)
  then have "list_all is_white_space (apiKey (fresh_chat\<lparr>apiKey := '' ''\<rparr>)) \<or>
             list_all is_white_space (userMessage (fresh_chat\<lparr>apiKey := '' ''\<rparr>))" ..
  from blank_submit_rejected [OF this, of v8 1000 "FetchRejects ''Failed to fetch''"] h
  show ?thesis by (simp add: fresh_chat_def)
qed

subsection \<open>The paths of \<open>handleSubmit\<close>\<close>

lemma inner_try_run:
  assumes "messages s = pre @ [\<lparr>role = Assistant, content = c0\<rparr>]"
  shows "inner_try eng now (chunks, fin) s =
    (let s' = s\<lparr>messages := (if chunks = [] then messages s
                                else pre @ [\<lparr>role = Assistant, content = concat chunks\<rparr>]),
                 stream_updates :=
                   stream_updates (snd (read_loop (processes_updates_after eng) 0 chunks [] 0 s))\<rparr>
     in case fin of
          ReadRejects m \<Rightarrow> Throws m s'
        | Done \<Rightarrow>
            if trim (concat chunks) \<noteq> []
            then Normal (s'\<lparr>toasts := addToast now ''Message sent successfully!'' Success (toasts s')\<rparr>)
            else Returned (report now (invalidApiKey, Error) s'))"
proof -
  note rl = read_loop_fields [OF assms, of "processes_updates_after eng" 0 chunks "[]"]
  show ?thesis
    apply (simp only: inner_try_def fst_conv snd_conv)
    apply (subst rl)
    apply (simp add: parse_401 Let_def split: read_end.splits)
    done
qed

lemma inner_catch_run: "inner_catch eng now m s = Returned (report now (invalidApiKey, Error) s)"
  by (simp add: inner_catch_def parse_401 Let_def)

lemma begin_request_messages:
  "messages (begin_request s) = messages s @ [\<lparr>role = User, content = userMessage s\<rparr>]"
  by (simp add: begin_request_def)

lemma handleSubmit_valid:
  assumes "trim (apiKey s) \<noteq> []" "trim (userMessage s) \<noteq> []"
  shows "handleSubmit eng now net s =
    (case try_block eng now net (begin_request s) of
       Normal t \<Rightarrow> t | Returned t \<Rightarrow> t | Throws m t \<Rightarrow> catch_block eng now m t)\<lparr>isLoading := False\<rparr>"
  using assms by (simp add: handleSubmit_def Let_def)

text \<open>
  The state in which the read loop starts: the user message and the empty assistant
  message are appended.
\<close>

lemma try_block_stream:
  assumes "ok r" "body r = Some (chunks, fin)"
  shows "try_block eng now (FetchResolves r) (begin_request s) =
    (let pre = messages s @ [\<lparr>role = User, content = userMessage s\<rparr>];
         s2 = (begin_request s)\<lparr>messages := messages (begin_request s) @ [\<lparr>role = Assistant, content = []\<rparr>]\<rparr>;
         s' = (begin_request s)\<lparr>
                 stream_updates :=
                   stream_updates (snd (read_loop (processes_updates_after eng) 0 chunks [] 0 s2))\<rparr>
     in if fin = Done \<and> trim (concat chunks) \<noteq> []
        then Normal (s'\<lparr>messages := pre @ [\<lparr>role = Assistant, content = concat chunks\<rparr>],
                        toasts := addToast now ''Message sent successfully!'' Success (toasts s),
                        userMessage := []\<rparr>)
        else Returned (s'\<lparr>toasts := addToast now invalidApiKey Error (toasts s),
                          error := invalidApiKey\<rparr>))"
proof -
  let ?s2 = "(begin_request s)\<lparr>messages := messages (begin_request s) @ [\<lparr>role = Assistant, content = []\<rparr>]\<rparr>"
  define U where "U = stream_updates (snd (read_loop (processes_updates_after eng) 0 chunks [] 0 ?s2))"
  have m: "messages ?s2 = (messages s @ [\<lparr>role = User, content = userMessage s\<rparr>]) @ [\<lparr>role = Assistant, content = []\<rparr>]"
    by (simp add: begin_request_messages)
  have tb: "try_block eng now (FetchResolves r) (begin_request s) =
      (case (case inner_try eng now (chunks, fin) ?s2 of
               Throws m s3 \<Rightarrow> inner_catch eng now m s3
             | fl \<Rightarrow> fl) of
         Normal s4 \<Rightarrow> Normal (s4\<lparr>userMessage := []\<rparr>)
       | fl \<Rightarrow> fl)"
    using assms by (simp add: try_block_def Let_def)
  show ?thesis
    unfolding tb inner_try_run [OF m] Let_def U_def [symmetric]
    by (cases fin; cases "chunks = []")
       (simp_all add: inner_catch_run report_def begin_request_def butlast_append)
qed

lemma handleSubmit_stream:
  assumes "trim (apiKey s) \<noteq> []" "trim (userMessage s) \<noteq> []" "ok r" "body r = Some (chunks, fin)"
  shows "handleSubmit eng now (FetchResolves r) s =
    (let pre = messages s @ [\<lparr>role = User, content = userMessage s\<rparr>];
         s2 = (begin_request s)\<lparr>messages := messages (begin_request s) @ [\<lparr>role = Assistant, content = []\<rparr>]\<rparr>;
         s' = (begin_request s)\<lparr>
                 isLoading := False,
                 stream_updates :=
                   stream_updates (snd (read_loop (processes_updates_after eng) 0 chunks [] 0 s2))\<rparr>
     in if fin = Done \<and> trim (concat chunks) \<noteq> []
        then s'\<lparr>messages := pre @ [\<lparr>role = Assistant, content = concat chunks\<rparr>],
                toasts := addToast now ''Message sent successfully!'' Success (toasts s),
                userMessage := []\<rparr>
        else s'\<lparr>toasts := addToast now invalidApiKey Error (toasts s),
                error := invalidApiKey\<rparr>)"
  unfolding handleSubmit_valid [OF assms(1,2)] try_block_stream [OF assms(3,4)]
  by (simp add: Let_def)


lemma fresh_chat_valid: "trim (apiKey fresh_chat) \<noteq> []" "trim (userMessage fresh_chat) \<noteq> []"
  by (simp_all add: fresh_chat_def trim_def is_white_space_def)

subsection \<open>Streaming\<close>




text \<open>
  Claim C5. When the stream of a 2xx response ends with nothing accumulated, the
  assistant placeholder is removed, the classifier is asked with status 401, its answer
  (the invalid key message, an error) is the one toast that is pushed, and the pending
  input is kept: there is no success toast.
\<close>

theorem empty_stream_reported_as_401:
  assumes "trim (apiKey s) \<noteq> []" and "trim (userMessage s) \<noteq> []"
    and "ok r" and "body r = Some (chunks, Done)" and "concat chunks = []"
  shows "messages (handleSubmit eng now (FetchResolves r) s) =
           messages s @ [\<lparr>role = User, content = userMessage s\<rparr>] \<and>
         toasts (handleSubmit eng now (FetchResolves r) s) =
           toasts s @ [\<lparr>id_toast = toString now, message = invalidApiKey, type = Error\<rparr>] \<and>
         parseErrorMessage eng
           (Str ''No response received from AI. This usually indicates an invalid API key or authentication issue.'')
           (Some 401) = Inr (invalidApiKey, Error) \<and>
         error (handleSubmit eng now (FetchResolves r) s) = invalidApiKey \<and>
         userMessage (handleSubmit eng now (FetchResolves r) s) = userMessage s \<and>
         \<not> isLoading (handleSubmit eng now (FetchResolves r) s)"
proof -
  have "trim (concat chunks) = []"
    by (simp only: assms(5) trim_def dropWhile.simps rev.simps append_Nil)
  then show ?thesis
    unfolding handleSubmit_stream [OF assms(1-4)]
    by (simp add: Let_def begin_request_def addToast_def parse_401)
qed

theorem empty_stream_reported_as_401_witness:
  "messages (handleSubmit v8 1000 (FetchResolves empty_response) fresh_chat) =
     [\<lparr>role = User, content = ''Hi''\<rparr>] \<and>
   toasts (handleSubmit v8 1000 (FetchResolves empty_response) fresh_chat) =
     [\<lparr>id_toast = ''1000'', message = invalidApiKey, type = Error\<rparr>]"
proof -
  have r: "ok empty_response" "body empty_response = Some ([], Done)"
    by (simp_all add: empty_response_def ok_def)
  have c: "concat ([] :: string list) = []" by simp
  have t: "toString 1000 = ''1000''" by code_simp
  from empty_stream_reported_as_401 [OF fresh_chat_valid r c, of v8 1000]
  show ?thesis by (simp add: fresh_chat_def t)
qed

text \<open>
  Claim C10. When the stream of a 2xx response ends, what was accumulated is trimmed
  before it is tested. Content of white space only is handled as no content is: the
  placeholder is removed, the 401 toast is pushed, the pending input is kept. The success
  toast and the clearing of the input need a character that is not white space.
\<close>

theorem blank_stream_reported_as_401:
  assumes "trim (apiKey s) \<noteq> []" and "trim (userMessage s) \<noteq> []"
    and "ok r" and "body r = Some (chunks, Done)"
  shows "if list_all is_white_space (concat chunks)
         then messages (handleSubmit eng now (FetchResolves r) s) =
                messages s @ [\<lparr>role = User, content = userMessage s\<rparr>] \<and>
              toasts (handleSubmit eng now (FetchResolves r) s) =
                toasts s @ [\<lparr>id_toast = toString now, message = invalidApiKey, type = Error\<rparr>] \<and>
              userMessage (handleSubmit eng now (FetchResolves r) s) = userMessage s
         else messages (handleSubmit eng now (FetchResolves r) s) =
                messages s @ [\<lparr>role = User, content = userMessage s\<rparr>,
                              \<lparr>role = Assistant, content = concat chunks\<rparr>] \<and>
              toasts (handleSubmit eng now (FetchResolves r) s) =
                toasts s @ [\<lparr>id_toast = toString now, message = ''Message sent successfully!'',
                             type = Success\<rparr>] \<and>
              userMessage (handleSubmit eng now (FetchResolves r) s) = []"
  unfolding handleSubmit_stream [OF assms]
  by (simp add: Let_def begin_request_def addToast_def trim_empty_iff)

theorem blank_stream_reported_as_401_witness:
  "list_all is_white_space (concat [[CHR '' ''], [], [CHR 0x0A]]) \<and>
   messages (handleSubmit v8 1000 (FetchResolves blank_response) fresh_chat) =
     [\<lparr>role = User, content = ''Hi''\<rparr>] \<and>
   toasts (handleSubmit v8 1000 (FetchResolves blank_response) fresh_chat) =
     [\<lparr>id_toast = ''1000'', message = invalidApiKey, type = Error\<rparr>] \<and>
   userMessage (handleSubmit v8 1000 (FetchResolves blank_response) fresh_chat) = ''Hi''"
proof -
  have r: "ok blank_response" "body blank_response = Some ([[CHR '' ''], [], [CHR 0x0A]], Done)"
    by (simp_all add: blank_response_def ok_def)
  have w: "list_all is_white_space (concat [[CHR '' ''], [], [CHR 0x0A]])"
    by (simp add: is_white_space_def)
  have t: "toString 1000 = ''1000''" by code_simp
  from blank_stream_reported_as_401 [OF fresh_chat_valid r, of v8 1000] w
  show ?thesis by (simp add: fresh_chat_def t)
qed

text \<open>
  With a reader, the exchange ends without the assistant message or with one whose
  content is not blank. Without a reader the placeholder stays.
\<close>

lemma stream_leaves_no_placeholder:
  assumes "trim (apiKey s) \<noteq> []" and "trim (userMessage s) \<noteq> []"
    and "ok r" and "body r = Some (chunks, fin)"
  shows "messages (handleSubmit eng now (FetchResolves r) s) =
           messages s @ [\<lparr>role = User, content = userMessage s\<rparr>] \<or>
         trim (concat chunks) \<noteq> [] \<and>
         messages (handleSubmit eng now (FetchResolves r) s) =
           messages s @ [\<lparr>role = User, content = userMessage s\<rparr>,
                         \<lparr>role = Assistant, content = concat chunks\<rparr>]"
  unfolding handleSubmit_stream [OF assms]
  by (simp add: Let_def begin_request_def)

lemma null_body_run:
  assumes "trim (apiKey s) \<noteq> []" and "trim (userMessage s) \<noteq> []"
    and "ok r" and "body r = None"
  shows "handleSubmit eng now (FetchResolves r) s =
           (begin_request s)\<lparr>
             messages := messages s @ [\<lparr>role = User, content = userMessage s\<rparr>,
                                        \<lparr>role = Assistant, content = []\<rparr>],
             userMessage := [], isLoading := False\<rparr>"
  unfolding handleSubmit_valid [OF assms(1,2)]
  using assms(3,4) by (simp add: try_block_def Let_def begin_request_def)

text \<open>
  Claim C7 says that no exchange ends with an empty assistant placeholder. A 2xx
  response without a body (\<open>response.body\<close> is \<open>null\<close>, as for status 204) has no
  reader: the placeholder has been appended, the loop and its tests are skipped, and the
  exchange ends with the empty assistant message in the list and no toast.
\<close>

theorem null_body_leaves_empty_placeholder:
  "ok no_content_response \<and>
   messages (handleSubmit v8 1000 (FetchResolves no_content_response) fresh_chat) =
     [\<lparr>role = User, content = ''Hi''\<rparr>, \<lparr>role = Assistant, content = []\<rparr>] \<and>
   toasts (handleSubmit v8 1000 (FetchResolves no_content_response) fresh_chat) = [] \<and>
   isLoading (handleSubmit v8 1000 (FetchResolves no_content_response) fresh_chat) = False"
  by code_simp

text \<open>Every failed read is reported as an invalid API key, whatever its description.\<close>

lemma read_failure_reported:
  assumes "trim (apiKey s) \<noteq> []" and "trim (userMessage s) \<noteq> []"
    and "ok r" and "body r = Some (chunks, ReadRejects m)"
  shows "messages (handleSubmit eng now (FetchResolves r) s) =
           messages s @ [\<lparr>role = User, content = userMessage s\<rparr>] \<and>
         toasts (handleSubmit eng now (FetchResolves r) s) =
           toasts s @ [\<lparr>id_toast = toString now, message = invalidApiKey, type = Error\<rparr>]"
  unfolding handleSubmit_stream [OF assms]
  by (simp add: Let_def begin_request_def addToast_def)

text \<open>
  Claim C6 says that a failed read is classified with status 401 only when its
  description points to the connection. The inner \<open>catch\<close> passes 401 on both of its
  branches: a failure with the description boom, which the classifier alone calls
  Error: boom, is reported as an invalid API key.
\<close>

theorem read_failure_always_401:
  "(str_includes (toLowerCase ''boom'') ''connection'' \<or>
    str_includes (toLowerCase ''boom'') ''network'' \<or>
    str_includes (toLowerCase ''boom'') ''chunk'') = False \<and>
   parseErrorMessage v8 (ErrorInstance ''boom'') None = Inr (''Error: boom'', Error) \<and>
   toasts (handleSubmit v8 1000 (FetchResolves broken_response) fresh_chat) =
     [\<lparr>id_toast = ''1000'', message = invalidApiKey, type = Error\<rparr>]"
  by code_simp

subsection \<open>The classifier\<close>

text \<open>
  On a failure whose \<open>errorString\<close> is a string, \<open>parseErrorMessage\<close> returns what the
  rules of the specification give. This covers every instance of \<open>Error\<close>, every string,
  and every value whose \<open>detail\<close> is a string or is falsy.
\<close>

lemmas scenario_defs = invalidApiKey_def rateLimit_def badRequest_def modelNotFound_def
  serverError_def networkError_def

lemma js_or_Inr: "js_or (Inr a) (Inr b) = Inr (a \<or> b)"
  by (cases a) (simp_all add: js_or_def)

lemma if_return_Inr: "if_return (Inr c) r rest = (if c then Inr r else rest)"
  by (cases c) (simp_all add: if_return_def)

lemma parseErrorMessage_text:
  assumes "errorString err = Str txt"
  shows "parseErrorMessage eng err st =
    (let inc = (\<lambda>k. str_includes (toLowerCase txt) k) in
     if st = Some 401 \<or> inc ''unauthorized'' \<or> inc ''invalid api key'' then Inr (invalidApiKey, Error)
     else if st = Some 429 \<or> inc ''rate limit'' \<or> inc ''quota'' then Inr (rateLimit, Warning)
     else if st = Some 400 \<or> inc ''bad request'' then Inr (badRequest, Error)
     else if st = Some 404 \<or> inc ''not found'' then Inr (modelNotFound, Error)
     else if st = Some 500 \<or> inc ''internal server error'' then Inr (serverError, Error)
     else if inc ''network'' \<or> inc ''fetch'' then Inr (networkError, Error)
     else Inr (''Error: '' @ txt, Error))"
  unfolding parseErrorMessage_def Let_def assms lower_includes.simps js_or_Inr if_return_Inr
    default_message_def scenario_defs
  by simp

lemma spec_classify_unfold:
  "spec_classify txt st =
    (let inc = (\<lambda>k. str_includes (toLowerCase txt) k) in
     if st = Some 401 \<or> inc ''unauthorized'' \<or> inc ''invalid api key'' then (invalidApiKey, Error)
     else if st = Some 429 \<or> inc ''rate limit'' \<or> inc ''quota'' then (rateLimit, Warning)
     else if st = Some 400 \<or> inc ''bad request'' then (badRequest, Error)
     else if st = Some 404 \<or> inc ''not found'' then (modelNotFound, Error)
     else if st = Some 500 \<or> inc ''internal server error'' then (serverError, Error)
     else if inc ''network'' \<or> inc ''fetch'' then (networkError, Error)
     else (''Error: '' @ txt, Error))"
  unfolding spec_classify_def spec_rules_def Let_def
  by (simp add: spec_rule_matches_def)

lemma classifier_on_text:
  assumes "errorString err = Str txt"
  shows "parseErrorMessage eng err st = Inr (spec_classify txt st)"
  unfolding parseErrorMessage_text [OF assms] spec_classify_unfold Let_def
  by (simp only: if_distrib [of Inr])

text \<open>
  Status 401 always gives rule 1; each of the other four statuses gives its own rule
  unless the text matches an earlier one.
\<close>

lemma spec_classify_401: "spec_classify txt (Some 401) = (invalidApiKey, Error)"
  by (simp add: spec_classify_unfold)

lemma spec_classify_429:
  assumes "\<not> str_includes (toLowerCase txt) ''unauthorized''"
    and "\<not> str_includes (toLowerCase txt) ''invalid api key''"
  shows "spec_classify txt (Some 429) = (rateLimit, Warning)"
  using assms by (simp add: spec_classify_unfold)

lemma spec_classify_400:
  assumes "\<not> str_includes (toLowerCase txt) ''unauthorized''"
    and "\<not> str_includes (toLowerCase txt) ''invalid api key''"
    and "\<not> str_includes (toLowerCase txt) ''rate limit''"
    and "\<not> str_includes (toLowerCase txt) ''quota''"
  shows "spec_classify txt (Some 400) = (badRequest, Error)"
  using assms by (simp add: spec_classify_unfold)

lemma spec_classify_404:
  assumes "\<not> str_includes (toLowerCase txt) ''unauthorized''"
    and "\<not> str_includes (toLowerCase txt) ''invalid api key''"
    and "\<not> str_includes (toLowerCase txt) ''rate limit''"
    and "\<not> str_includes (toLowerCase txt) ''quota''"
    and "\<not> str_includes (toLowerCase txt) ''bad request''"
  shows "spec_classify txt (Some 404) = (modelNotFound, Error)"
  using assms by (simp add: spec_classify_unfold)

lemma spec_classify_500:
  assumes "\<not> str_includes (toLowerCase txt) ''unauthorized''"
    and "\<not> str_includes (toLowerCase txt) ''invalid api key''"
    and "\<not> str_includes (toLowerCase txt) ''rate limit''"
    and "\<not> str_includes (toLowerCase txt) ''quota''"
    and "\<not> str_includes (toLowerCase txt) ''bad request''"
    and "\<not> str_includes (toLowerCase txt) ''not found''"
  shows "spec_classify txt (Some 500) = (serverError, Error)"
  using assms by (simp add: spec_classify_unfold)

lemma lower_includes_throws:
  assumes "\<And>txt. v \<noteq> Str txt"
  shows "lower_includes eng v k = Inl (not_a_function_message eng)"
  using assms by (cases v) auto

lemma classifier_throws:
  assumes "\<And>txt. errorString err \<noteq> Str txt" and "st \<noteq> Some 401"
  shows "parseErrorMessage eng err st = Inl (not_a_function_message eng)"
  using assms(2)
  by (simp add: parseErrorMessage_def js_or_def if_return_def Let_def
      lower_includes_throws [OF assms(1)])

text \<open>
  Claim C1 says that the classifier returns the pair of the rules for every failure
  input. A decoded body whose \<open>detail\<close> is truthy and no string makes \<open>errorString\<close>
  that value, and the first \<open>toLowerCase\<close> throws unless the status is 401: with status
  429 the rules give the rate limit warning, the function returns nothing.
\<close>

theorem classifier_throws_on_detail_object:
  "parseErrorMessage v8 nested_detail (Some 429) = Inl (not_a_function_message v8) \<and>
   spec_classify ''Unknown error occurred'' (Some 429) = (rateLimit, Warning) \<and>
   toasts (handleSubmit v8 1000 (FetchResolves nested_response) fresh_chat) =
     [\<lparr>id_toast = ''1000'', message = ''Error: '' @ not_a_function_message v8, type = Error\<rparr>]"
  by code_simp

subsection \<open>Responses that are not 2xx\<close>

text \<open>
  Every such response ends with the message list as it was before the submit and with
  one more toast; when reading \<open>detail\<close> and the classifier do not throw, that toast is
  the classifier's answer for the body and the status.
\<close>

lemma catch_block_run:
  "catch_block eng now m s = report now (spec_classify m None) s"
  by (simp add: catch_block_def classifier_on_text)




text \<open>A rejected \<open>fetch\<close> is classified without a status, and the user message is removed.\<close>

lemma fetch_rejected_rolls_back:
  assumes "trim (apiKey s) \<noteq> []" and "trim (userMessage s) \<noteq> []"
  shows "messages (handleSubmit eng now (FetchRejects m) s) = messages s \<and>
         toasts (handleSubmit eng now (FetchRejects m) s) =
           toasts s @ [\<lparr>id_toast = toString now, message = fst (spec_classify m None),
                        type = snd (spec_classify m None)\<rparr>]"
  unfolding handleSubmit_valid [OF assms]
  by (simp add: try_block_def catch_block_run report_def addToast_def begin_request_def)




subsection \<open>One request at a time\<close>




subsection \<open>Toast ids\<close>

text \<open>
  The id of a toast is the decimal text of the clock reading, and different readings
  give different ids: a push keeps the ids distinct when its reading is not the id of a
  toast in the queue.
\<close>

lemma toString_not_Nil: "toString n \<noteq> []"
  by (subst toString.simps) simp

lemma digit_char_inj: "a < 10 \<Longrightarrow> b < 10 \<Longrightarrow> digit_char a = digit_char b \<Longrightarrow> a = b"
  by (simp add: digit_char_def char_of_eq_iff take_bit_eq_mod)

lemma toString_inj: "toString m = toString n \<Longrightarrow> m = n"
proof (induction m arbitrary: n rule: toString.induct)
  case (1 m)
  show ?case
  proof (cases "m < 10")
    case small: True
    show ?thesis
    proof (cases "n < 10")
      case True
      with small "1.prems" show ?thesis
        by (simp add: toString.simps [of m] toString.simps [of n] digit_char_inj)
    next
      case False
      with small "1.prems" toString_not_Nil [of "n div 10"] show ?thesis
        by (simp add: toString.simps [of m] toString.simps [of n])
    qed
  next
    case big: False
    show ?thesis
    proof (cases "n < 10")
      case True
      with big "1.prems" toString_not_Nil [of "m div 10"] show ?thesis
        by (simp add: toString.simps [of m] toString.simps [of n])
    next
      case False
      with big "1.prems" have eq: "toString (m div 10) = toString (n div 10)"
        and d: "digit_char (m mod 10) = digit_char (n mod 10)"
        by (simp_all add: toString.simps [of m] toString.simps [of n])
      from "1.IH" [OF big eq] have "m div 10 = n div 10" .
      moreover from d have "m mod 10 = n mod 10" by (simp add: digit_char_inj)
      ultimately show ?thesis by (metis div_mult_mod_eq)
    qed
  qed
qed

lemma addToast_fresh_id:
  assumes "distinct (map id_toast ts)" and "toString now \<notin> set (map id_toast ts)"
  shows "distinct (map id_toast (addToast now msg ty ts))"
  using assms by (auto simp: addToast_def)

text \<open>
  Claim C9 says that the ids of the toasts in the queue are distinct. Two pushes at the
  same clock reading get the same id: the success toast of an exchange and the toast of
  \<open>clearChat\<close> in the same millisecond are both 1000, and removing that id removes both.
\<close>

theorem same_millisecond_same_id:
  "map id_toast (toasts (clearChat 1000 (handleSubmit v8 1000 (FetchResolves hello_response) fresh_chat))) =
     [''1000'', ''1000''] \<and>
   map message (toasts (clearChat 1000 (handleSubmit v8 1000 (FetchResolves hello_response) fresh_chat))) =
     [''Message sent successfully!'', ''Chat cleared''] \<and>
   removeToast ''1000''
     (toasts (clearChat 1000 (handleSubmit v8 1000 (FetchResolves hello_response) fresh_chat))) = []"
  by code_simp

end
